theory Spec2Isabelle
  imports Main
begin

section \<open>Python values used by the crawler\<close>

text \<open>
  Strings are lists of characters; a character stands for one code point below 256.
  Exceptions are values of \<open>py_error\<close>; a function that can raise returns
  \<open>py_error + 'a\<close> with \<open>Inl\<close> for the raised exception.
\<close>

datatype py_error =
    ValueError
  | TypeError
  | KeyError string
  | UnicodeDecodeError
  | IgnoreRequest string

subsection \<open>\<open>str(n)\<close> for an integer\<close>

definition digit_char :: "nat \<Rightarrow> char" where
  "digit_char d = ''0123456789'' ! (d mod 10)"

fun str_nat :: "nat \<Rightarrow> string" where
  "str_nat n = (if n < 10 then [digit_char n] else str_nat (n div 10) @ [digit_char (n mod 10)])"

declare str_nat.simps [simp del]

definition str_int :: "int \<Rightarrow> string" where
  "str_int i = (if i < 0 then CHR ''-'' # str_nat (nat (- i)) else str_nat (nat i))"

subsection \<open>\<open>int(value)\<close> for a string or \<open>None\<close>\<close>

text \<open>
  \<open>int\<close> accepts, between optional surrounding whitespace, an optional sign followed by
  decimal digits with single underscores between digits. Anything else raises
  \<open>ValueError\<close>; \<open>None\<close> raises \<open>TypeError\<close>. The interpreter's optional limit on the
  number of digits, one more \<open>ValueError\<close>, is left out.
\<close>

definition is_space :: "char \<Rightarrow> bool" where
  "is_space c = ((of_char c :: nat) \<in> set [9, 10, 11, 12, 13, 32, 133, 160])"

definition is_digit :: "char \<Rightarrow> bool" where
  "is_digit c = (c \<in> set ''0123456789'')"

definition digit_value :: "char \<Rightarrow> nat" where
  "digit_value c = of_char c - 48"

definition strip :: "string \<Rightarrow> string" where
  "strip s = rev (dropWhile is_space (rev (dropWhile is_space s)))"

fun digits_value :: "nat \<Rightarrow> string \<Rightarrow> nat option" where
  "digits_value acc [] = Some acc"
| "digits_value acc [c] =
     (if is_digit c then Some (10 * acc + digit_value c) else None)"
| "digits_value acc (c # d # ds) =
     (if is_digit c then digits_value (10 * acc + digit_value c) (d # ds)
      else if c = CHR ''_'' \<and> is_digit d then digits_value (10 * acc + digit_value d) ds
      else None)"

definition parse_decimal :: "string \<Rightarrow> nat option" where
  "parse_decimal s =
     (case s of
        [] \<Rightarrow> None
      | c # cs \<Rightarrow> if is_digit c then digits_value (digit_value c) cs else None)"

definition py_int :: "string option \<Rightarrow> py_error + int" where
  "py_int value =
     (case value of
        None \<Rightarrow> Inl TypeError
      | Some s \<Rightarrow>
          (let t = strip s;
               neg = (t \<noteq> [] \<and> hd t = CHR ''-'');
               body = (if t \<noteq> [] \<and> (hd t = CHR ''-'' \<or> hd t = CHR ''+'') then tl t else t)
           in case parse_decimal body of
                None \<Rightarrow> Inl ValueError
              | Some n \<Rightarrow> Inr (if neg then - int n else int n)))"

subsection \<open>Substring tests, regular expressions and \<open>split\<close>\<close>

fun startswith :: "string \<Rightarrow> string \<Rightarrow> bool" where
  "startswith [] s = True"
| "startswith (p # ps) [] = False"
| "startswith (p # ps) (c # cs) = (p = c \<and> startswith ps cs)"

text \<open>\<open>sub in s\<close>: the substring test of Python.\<close>

fun contains :: "string \<Rightarrow> string \<Rightarrow> bool" where
  "contains sub [] = startswith sub []"
| "contains sub (c # cs) = (startswith sub (c # cs) \<or> contains sub cs)"

text \<open>
  Every compiled pattern of the spider is one group holding a literal followed by one
  character class, such as \<open>(l[0-3])\<close>: \<open>Pattern lit cls\<close> with the members of the
  class listed.
\<close>

datatype pattern = Pattern string string

fun match_here :: "pattern \<Rightarrow> string \<Rightarrow> string option" where
  "match_here (Pattern lit cls) s =
     (if startswith lit s then
        (case drop (length lit) s of
           [] \<Rightarrow> None
         | c # _ \<Rightarrow> if c \<in> set cls then Some (lit @ [c]) else None)
      else None)"

text \<open>\<open>pattern.search(s)\<close>, giving \<open>match.group(1)\<close> of the leftmost match.\<close>

fun re_search :: "pattern \<Rightarrow> string \<Rightarrow> string option" where
  "re_search p [] = match_here p []"
| "re_search p (c # cs) =
     (case match_here p (c # cs) of
        Some m \<Rightarrow> Some m
      | None \<Rightarrow> re_search p cs)"

text \<open>
  \<open>s.split(sep, 1)[0]\<close>: the text before the first occurrence of \<open>sep\<close>, the whole of
  \<open>s\<close> when \<open>sep\<close> does not occur. The separator is a regular expression match at every
  call, hence not empty (Python raises \<open>ValueError\<close> on an empty separator).
\<close>

fun split_head :: "string \<Rightarrow> string \<Rightarrow> string" where
  "split_head sep [] = []"
| "split_head sep (c # cs) = (if startswith sep (c # cs) then [] else c # split_head sep cs)"

section \<open>Logging, requests and responses\<close>

datatype log_level = INFO | WARNING | ERROR

text \<open>One constructor per message format of the source, holding the values it interpolates.\<close>

datatype log_message =
    Parsing_level "string option" string
  | No_pagination_data string
  | Invalid_integer "string option"
  | Room_pattern_not_found string
  | Direction_pattern_not_found string
  | Floor_pattern_not_found string
  | Redirect_detected string string
  | Max_retries_reached string string
  | Retrying_redirect string int int string
  | Captcha_detected string
  | Forcing_retry string int
  | Retrying_missing_total_count string int
  | Giving_up_missing_total_count string int

type_synonym log = "log_level \<times> log_message"

datatype callback = Parse_level | Parse_data

text \<open>
  A \<open>scrapy.Request\<close>: the URL, the callback, the keys of \<open>meta\<close> that the crawler reads
  or writes (\<open>None\<close>: the key is absent) and \<open>dont_filter\<close>. The URL is kept as the text
  given: the escaping of unsafe characters and the check for a scheme that the constructor
  makes are left out.
\<close>

record request =
  req_url :: string
  req_callback :: "callback option"
  meta_level :: "string option"
  meta_retry_count :: "int option"
  meta_retry_attempts :: "int option"
  dont_filter :: bool

text \<open>
  A response as the crawler sees it: URL, status, the bytes that
  \<open>response.headers.get('Location', '')\<close> gives (bytes that decode as UTF-8 to the given
  text, or bytes that do not decode; an absent header gives the empty bytes), the \<open>level\<close>
  key of \<open>response.meta\<close>, and the results of the three XPath queries the code makes
  (first match of \<open>@data-totalpage\<close>, first text of the \<open>content__title--hl\<close> span, all
  area links).
\<close>

datatype header_value = Utf8 string | Not_utf8

record response =
  resp_url :: string
  status :: int
  location :: header_value
  resp_meta_level :: "string option"
  data_totalpage :: "string option"
  title_hl :: "string option"
  area_hrefs :: "string list"

section \<open>The spider\<close>

definition max_price_pages :: "string \<Rightarrow> int" where
  "max_price_pages city = (if city = ''sh'' then 8 else 7)"

definition base_url :: "string \<Rightarrow> string" where
  "base_url city = ''https://'' @ city @ ''.lianjia.com''"

definition should_subdivide :: "int \<Rightarrow> int \<Rightarrow> bool" where
  "should_subdivide total_pages total_houses = (total_pages = 100 \<or> total_houses > 3000)"

definition parse_integer :: "string option \<Rightarrow> log list \<times> (py_error + int)" where
  "parse_integer value =
     (case py_int value of
        Inr n \<Rightarrow> ([], Inr n)
      | Inl ValueError \<Rightarrow> ([(WARNING, Invalid_integer value)], Inr 0)
      | Inl TypeError \<Rightarrow> ([(WARNING, Invalid_integer value)], Inr 0)
      | Inl e \<Rightarrow> ([], Inl e))"

definition extract_total_pages :: "response \<Rightarrow> log list \<times> (py_error + int)" where
  "extract_total_pages response = parse_integer (data_totalpage response)"

definition extract_total_houses :: "response \<Rightarrow> log list \<times> (py_error + int)" where
  "extract_total_houses response = parse_integer (title_hl response)"

definition get_page_info :: "response \<Rightarrow> log list \<times> (py_error + int \<times> int)" where
  "get_page_info response =
     (case extract_total_pages response of
        (l1, Inl e) \<Rightarrow> (l1, Inl e)
      | (l1, Inr total_pages) \<Rightarrow>
          (case extract_total_houses response of
             (l2, Inl e) \<Rightarrow> (l1 @ l2, Inl e)
           | (l2, Inr total_houses) \<Rightarrow> (l1 @ l2, Inr (total_pages, total_houses))))"

definition extract_area_urls :: "response \<Rightarrow> string list" where
  "extract_area_urls response = area_hrefs response"

definition get_price_regex :: "string \<Rightarrow> pattern" where
  "get_price_regex city =
     (if city = ''sh'' then Pattern ''rp'' ''12345678'' else Pattern ''rp'' ''1234567'')"

definition get_room_regex :: pattern where
  "get_room_regex = Pattern ''l'' ''0123''"

definition get_direction_regex :: pattern where
  "get_direction_regex = Pattern ''f10050000000'' ''15379''"

definition get_floor_regex :: pattern where
  "get_floor_regex = Pattern ''lc20050000000'' ''123''"

definition get_room_type_list :: "string list" where
  "get_room_type_list = map (\<lambda>i. ''l'' @ str_int i) [0..3]"

definition get_direction_list :: "string list" where
  "get_direction_list =
     [''f100500000001'', ''f100500000005'', ''f100500000003'', ''f100500000007'',
      ''f100500000009'']"

definition get_floor_list :: "string list" where
  "get_floor_list = [''lc200500000003'', ''lc200500000002'', ''lc200500000001'']"

definition get_price_url :: "string \<Rightarrow> int \<Rightarrow> string" where
  "get_price_url base page_number = base @ ''rp'' @ str_int page_number @ ''/''"

definition get_room_url :: "string \<Rightarrow> string \<Rightarrow> log list \<times> string" where
  "get_room_url base room_type =
     (case re_search get_room_regex base of
        Some room_identifier \<Rightarrow>
          ([], split_head room_identifier base @ room_type @ room_identifier @ ''/'')
      | None \<Rightarrow> ([(WARNING, Room_pattern_not_found base)], base))"

definition get_direction_url :: "string \<Rightarrow> string \<Rightarrow> log list \<times> string" where
  "get_direction_url base direction =
     (case re_search get_direction_regex base of
        Some direction_identifier \<Rightarrow>
          ([], split_head direction_identifier base @ direction @ direction_identifier @ ''/'')
      | None \<Rightarrow> ([(WARNING, Direction_pattern_not_found base)], base))"

definition get_floor_url :: "string \<Rightarrow> string \<Rightarrow> log list \<times> string" where
  "get_floor_url base floor =
     (case re_search get_floor_regex base of
        Some floor_identifier \<Rightarrow>
          ([], split_head floor_identifier base @ floor @ floor_identifier @ ''/'')
      | None \<Rightarrow> ([(WARNING, Floor_pattern_not_found base)], base))"


subsection \<open>Requests produced by a callback\<close>

text \<open>
  A callback is a generator: it logs, yields requests, and may stop with an exception
  after the requests it has yielded so far.
\<close>

record outcome =
  logged :: "log list"
  yielded :: "request list"
  raised :: "py_error option"

definition Request :: "string \<Rightarrow> callback \<Rightarrow> string option \<Rightarrow> bool \<Rightarrow> request" where
  "Request u cb lvl df =
     \<lparr>req_url = u, req_callback = Some cb, meta_level = lvl, meta_retry_count = None,
      meta_retry_attempts = None, dont_filter = df\<rparr>"

definition start_requests :: "string \<Rightarrow> request list" where
  "start_requests city = [Request (base_url city @ ''/zufang/'') Parse_level (Some ''city'') False]"

fun page_requests :: "string \<Rightarrow> int list \<Rightarrow> request list" where
  "page_requests base [] = []"
| "page_requests base (page_number # ns) =
     Request (base @ ''pg'' @ str_int page_number @ ''/'') Parse_data None True
       # page_requests base ns"

definition handle_pagination :: "string \<Rightarrow> int \<Rightarrow> outcome" where
  "handle_pagination base total_pages =
     (if total_pages \<noteq> 0 then
        \<lparr>logged = [], yielded = page_requests base [1..total_pages], raised = None\<rparr>
      else
        \<lparr>logged = [(WARNING, No_pagination_data base)], yielded = [], raised = None\<rparr>)"

subsection \<open>The table of levels\<close>

text \<open>
  \<open>subdivision_hierarchy\<close> is a dictionary of dictionaries with different keys per level.
  A dictionary is an association list read with \<open>map_of\<close>; its values are tagged with
  their Python type. A method stored in the table is a tag that \<open>call_modifier\<close> applies.
\<close>

datatype url_modifier = Get_price_url | Get_room_url | Get_direction_url | Get_floor_url

datatype dict_value =
    V_bool bool
  | V_str string
  | V_extract_area_urls
  | V_modifier url_modifier
  | V_int int
  | V_pattern pattern
  | V_list "string list"

type_synonym dict = "(string \<times> dict_value) list"

definition subdivision_hierarchy :: "string \<Rightarrow> int \<Rightarrow> int \<Rightarrow> (string \<times> dict) list" where
  "subdivision_hierarchy city total_pages total_houses =
     [(''city'',
        [(''should_subdivide'', V_bool (should_subdivide total_pages total_houses)),
         (''next_level'', V_str ''area''),
         (''extract_urls'', V_extract_area_urls)]),
      (''area'',
        [(''should_subdivide'', V_bool (should_subdivide total_pages total_houses)),
         (''next_level'', V_str ''price''),
         (''url_modifier'', V_modifier Get_price_url),
         (''max_pages'', V_int (max_price_pages city))]),
      (''price'',
        [(''should_subdivide'', V_bool (should_subdivide total_pages total_houses)),
         (''next_level'', V_str ''room''),
         (''url_modifier'', V_modifier Get_room_url),
         (''patterns'', V_pattern (get_price_regex city)),
         (''list'', V_list get_room_type_list)]),
      (''room'',
        [(''should_subdivide'', V_bool (should_subdivide total_pages total_houses)),
         (''next_level'', V_str ''direction''),
         (''url_modifier'', V_modifier Get_direction_url),
         (''patterns'', V_pattern get_room_regex),
         (''list'', V_list get_direction_list)]),
      (''direction'',
        [(''should_subdivide'', V_bool (should_subdivide total_pages total_houses)),
         (''next_level'', V_str ''floor''),
         (''url_modifier'', V_modifier Get_floor_url),
         (''patterns'', V_pattern get_direction_regex),
         (''list'', V_list get_floor_list)]),
      (''floor'',
        [(''should_subdivide'', V_bool False)])]"

text \<open>\<open>subdivision_hierarchy.get(current_level, {})\<close>\<close>

definition get_level :: "(string \<times> dict) list \<Rightarrow> string option \<Rightarrow> dict" where
  "get_level h current_level =
     (case current_level of
        None \<Rightarrow> []
      | Some l \<Rightarrow> (case map_of h l of None \<Rightarrow> [] | Some d \<Rightarrow> d))"

text \<open>The truth value of \<open>d.get(key)\<close> in an \<open>if\<close>.\<close>

definition truthy :: "dict_value option \<Rightarrow> bool" where
  "truthy v =
     (case v of
        None \<Rightarrow> False
      | Some (V_bool b) \<Rightarrow> b
      | Some (V_str s) \<Rightarrow> s \<noteq> []
      | Some (V_int n) \<Rightarrow> n \<noteq> 0
      | Some (V_list xs) \<Rightarrow> xs \<noteq> []
      | Some _ \<Rightarrow> True)"

text \<open>
  A modifier is called with a page number (an integer) or with an item of a list (a
  string); the modifier only interpolates the value into an f-string, which formats an
  integer with \<open>str\<close>.
\<close>

datatype arg = A_int int | A_str string

fun call_modifier :: "url_modifier \<Rightarrow> string \<Rightarrow> arg \<Rightarrow> log list \<times> string" where
  "call_modifier Get_price_url base (A_int n) = ([], get_price_url base n)"
| "call_modifier Get_price_url base (A_str s) = ([], base @ ''rp'' @ s @ ''/'')"
| "call_modifier Get_room_url base (A_int n) = get_room_url base (str_int n)"
| "call_modifier Get_room_url base (A_str s) = get_room_url base s"
| "call_modifier Get_direction_url base (A_int n) = get_direction_url base (str_int n)"
| "call_modifier Get_direction_url base (A_str s) = get_direction_url base s"
| "call_modifier Get_floor_url base (A_int n) = get_floor_url base (str_int n)"
| "call_modifier Get_floor_url base (A_str s) = get_floor_url base s"

text \<open>The two \<open>for\<close> loops over a modifier: one request per value, in order.\<close>

fun modifier_loop :: "url_modifier \<Rightarrow> string \<Rightarrow> string \<Rightarrow> arg list \<Rightarrow> log list \<times> request list" where
  "modifier_loop m u next_level [] = ([], [])"
| "modifier_loop m u next_level (a # as) =
     (let (l, modified_url) = call_modifier m u a;
          (ls, rs) = modifier_loop m u next_level as
      in (l @ ls, Request modified_url Parse_level (Some next_level) True # rs))"

fun area_loop :: "string \<Rightarrow> string \<Rightarrow> string list \<Rightarrow> request list" where
  "area_loop city next_level [] = []"
| "area_loop city next_level (u # us) =
     Request (base_url city @ u) Parse_level (Some next_level) True
       # area_loop city next_level us"

definition raise :: "py_error \<Rightarrow> outcome" where
  "raise e = \<lparr>logged = [], yielded = [], raised = Some e\<rparr>"

text \<open>
  The branch of \<open>parse_level\<close> taken when \<open>should_subdivide\<close> is true. A key that the
  current dictionary lacks raises \<open>KeyError\<close>; a value of another type than the one built
  by \<open>subdivision_hierarchy\<close> does not occur, and is given as \<open>TypeError\<close>.
\<close>

definition subdivide :: "string \<Rightarrow> response \<Rightarrow> string option \<Rightarrow> dict \<Rightarrow> outcome" where
  "subdivide city response current_level current_subdivision =
     (case map_of current_subdivision ''next_level'' of
        None \<Rightarrow> raise (KeyError ''next_level'')
      | Some (V_str next_level) \<Rightarrow>
          (if map_of current_subdivision ''extract_urls'' \<noteq> None then
             (case map_of current_subdivision ''extract_urls'' of
                Some V_extract_area_urls \<Rightarrow>
                  \<lparr>logged = [],
                   yielded = area_loop city next_level (extract_area_urls response),
                   raised = None\<rparr>
              | _ \<Rightarrow> raise TypeError)
           else if map_of current_subdivision ''url_modifier'' \<noteq> None then
             (if current_level = Some ''price'' then
                (case map_of current_subdivision ''max_pages'' of
                   None \<Rightarrow> raise (KeyError ''max_pages'')
                 | Some (V_int max_pages) \<Rightarrow>
                     (case map_of current_subdivision ''url_modifier'' of
                        Some (V_modifier m) \<Rightarrow>
                          (let (l, rs) = modifier_loop m (resp_url response) next_level
                                           (map A_int [1..max_pages])
                           in \<lparr>logged = l, yielded = rs, raised = None\<rparr>)
                      | _ \<Rightarrow> raise TypeError)
                 | Some _ \<Rightarrow> raise TypeError)
              else
                (case map_of current_subdivision ''list'' of
                   None \<Rightarrow> raise (KeyError ''list'')
                 | Some (V_list items) \<Rightarrow>
                     (case map_of current_subdivision ''url_modifier'' of
                        Some (V_modifier m) \<Rightarrow>
                          (let (l, rs) = modifier_loop m (resp_url response) next_level
                                           (map A_str items)
                           in \<lparr>logged = l, yielded = rs, raised = None\<rparr>)
                      | _ \<Rightarrow> raise TypeError)
                 | Some _ \<Rightarrow> raise TypeError))
           else \<lparr>logged = [], yielded = [], raised = None\<rparr>)
      | Some _ \<Rightarrow> raise TypeError)"

definition parse_level :: "string \<Rightarrow> response \<Rightarrow> outcome" where
  "parse_level city response =
     (let current_level = resp_meta_level response;
          l0 = [(INFO, Parsing_level current_level (resp_url response))]
      in case get_page_info response of
           (l1, Inl e) \<Rightarrow> \<lparr>logged = l0 @ l1, yielded = [], raised = Some e\<rparr>
         | (l1, Inr (total_pages, total_houses)) \<Rightarrow>
             (let current_subdivision =
                    get_level (subdivision_hierarchy city total_pages total_houses) current_level;
                  out = (if truthy (map_of current_subdivision ''should_subdivide'')
                         then subdivide city response current_level current_subdivision
                         else handle_pagination (resp_url response) total_pages)
              in out\<lparr>logged := l0 @ l1 @ logged out\<rparr>))"

section \<open>The downloader middlewares\<close>

text \<open>A response handler returns the response or a request to schedule, or raises.\<close>

datatype mw_result = Return_response response | Return_request request

subsection \<open>\<open>RedirectRetryMiddleware\<close>\<close>

text \<open>
  \<open>_retry\<close> is inherited from the framework's \<open>RetryMiddleware\<close> and is a parameter here:
  given the request to retry and the status whose message is the reason, it gives the
  request to schedule or \<open>None\<close>. \<open>max_retry_times\<close> is the inherited setting.
\<close>

definition handle_redirect_response ::
  "(request \<Rightarrow> int \<Rightarrow> request option) \<Rightarrow> int \<Rightarrow> request \<Rightarrow> response
     \<Rightarrow> log list \<times> (py_error + mw_result)" where
  "handle_redirect_response retry max_retry_times request response =
     (if status response \<in> set [301, 302] then
        (case location response of
           Not_utf8 \<Rightarrow> ([], Inl UnicodeDecodeError)
         | Utf8 redirect_url \<Rightarrow>
             (let l1 = [(WARNING, Redirect_detected (req_url request) redirect_url)];
                  retry_count = (case meta_retry_count request of None \<Rightarrow> 0 | Some c \<Rightarrow> c);
                  max_retries = max_retry_times
              in if retry_count \<ge> max_retries then
                   (l1 @ [(ERROR, Max_retries_reached (req_url request) redirect_url)],
                    Inr (Return_response response))
                 else
                   (let l2 = [(INFO, Retrying_redirect (req_url request) (retry_count + 1)
                                       max_retries redirect_url)];
                        new_request = request\<lparr>meta_retry_count := Some (retry_count + 1)\<rparr>
                    in (l1 @ l2,
                        Inr (case retry new_request (status response) of
                               Some r \<Rightarrow> Return_request r
                             | None \<Rightarrow> Return_response response)))))
      else ([], Inr (Return_response response)))"

subsection \<open>\<open>TotalCountRetryMiddleware\<close>\<close>

record total_count_retry_middleware =
  retry_attempts :: int
  force_retry_urls :: "string list"

definition retry_request :: "request \<Rightarrow> int \<Rightarrow> request" where
  "retry_request request n = request\<lparr>meta_retry_attempts := Some (n + 1), dont_filter := True\<rparr>"

definition handle_missing_total_count ::
  "total_count_retry_middleware \<Rightarrow> request \<Rightarrow> response \<Rightarrow> log list \<times> (py_error + mw_result)" where
  "handle_missing_total_count self request response =
     (if contains ''captcha'' (resp_url response) then
        ([(WARNING, Captcha_detected (req_url request))],
         Inl (IgnoreRequest (''Captcha detected for '' @ req_url request)))
      else if title_hl response \<noteq> None \<and> title_hl response \<noteq> Some [] then
        ([], Inr (Return_response response))
      else
        (let n = (case meta_retry_attempts request of None \<Rightarrow> 0 | Some a \<Rightarrow> a)
         in if req_url request \<in> set (force_retry_urls self) then
              ([(INFO, Forcing_retry (req_url request) (n + 1))],
               Inr (Return_request (retry_request request n)))
            else if n < retry_attempts self then
              ([(INFO, Retrying_missing_total_count (req_url request) (n + 1))],
               Inr (Return_request (retry_request request n)))
            else
              ([(WARNING, Giving_up_missing_total_count (req_url request) n)],
               Inl (IgnoreRequest (''Missing total_count_str after '' @ str_int n @ '' retries'')))))"

section \<open>Basic facts about the model\<close>

lemma py_int_raises: "py_int v = Inl e \<Longrightarrow> e = ValueError \<or> e = TypeError"
  by (auto simp: py_int_def Let_def split: option.splits)

lemma parse_integer_eq:
  "parse_integer v =
     (case py_int v of Inr n \<Rightarrow> ([], Inr n) | Inl e \<Rightarrow> ([(WARNING, Invalid_integer v)], Inr 0))"
proof (cases "py_int v")
  case (Inl e)
  with py_int_raises [OF Inl] show ?thesis by (auto simp: parse_integer_def)
next
  case (Inr n)
  then show ?thesis by (simp add: parse_integer_def)
qed

lemma parse_integer_returns: "\<exists>l n. parse_integer v = (l, Inr n)"
  by (simp add: parse_integer_eq split: sum.splits)

lemma get_page_info_returns: "\<exists>l p h. get_page_info r = (l, Inr (p, h))"
proof -
  obtain l1 p where a: "parse_integer (data_totalpage r) = (l1, Inr p)"
    using parse_integer_returns by blast
  obtain l2 h where b: "parse_integer (title_hl r) = (l2, Inr h)"
    using parse_integer_returns by blast
  show ?thesis
    by (simp add: get_page_info_def extract_total_pages_def extract_total_houses_def a b)
qed

lemma page_requests_map:
  "page_requests base ns = map (\<lambda>n. Request (base @ ''pg'' @ str_int n @ ''/'') Parse_data None True) ns"
  by (induction ns) simp_all

lemma length_upto_one: "length [1..n] = nat n"
  by simp

lemma parse_level_paginates:
  assumes "snd (get_page_info r) = Inr (p, h)"
    and "\<not> truthy (map_of (get_level (subdivision_hierarchy city p h) (resp_meta_level r)) ''should_subdivide'')"
  shows "yielded (parse_level city r) = yielded (handle_pagination (resp_url r) p)"
    and "raised (parse_level city r) = raised (handle_pagination (resp_url r) p)"
    and "logged (parse_level city r) =
           (INFO, Parsing_level (resp_meta_level r) (resp_url r)) # fst (get_page_info r)
             @ logged (handle_pagination (resp_url r) p)"
  using assms by (cases "get_page_info r"; simp add: parse_level_def Let_def)+

lemma floor_entry:
  "map_of (get_level (subdivision_hierarchy city p h) (Some ''floor'')) ''should_subdivide'' = Some (V_bool False)"
  by (simp add: get_level_def subdivision_hierarchy_def)

lemma startswith_append: "startswith p s \<longleftrightarrow> (\<exists>t. s = p @ t)"
  by (induction p s rule: startswith.induct) auto

lemma match_here_startswith:
  assumes "match_here p s = Some m"
  shows "startswith m s \<and> m \<noteq> []"
proof (cases p)
  case (Pattern lit cls)
  from assms Pattern obtain t where s: "s = lit @ t"
    by (auto simp: startswith_append split: if_splits)
  from assms Pattern s obtain c t' where "t = c # t'" and "m = lit @ [c]"
    by (auto split: if_splits list.splits)
  with s show ?thesis by (simp add: startswith_append)
qed

lemma re_search_contains: "re_search p s = Some m \<Longrightarrow> contains m s \<and> m \<noteq> []"
  by (induction p s rule: re_search.induct) (auto dest: match_here_startswith split: option.splits)

lemma split_head_decomp:
  "contains m s \<Longrightarrow> \<exists>post. s = split_head m s @ m @ post"
  by (induction m s rule: split_head.induct) (auto simp: startswith_append)

lemma split_head_first:
  "k < length (split_head m s) \<Longrightarrow> \<not> startswith m (drop k s)"
proof (induction m s arbitrary: k rule: split_head.induct)
  case (1 sep)
  then show ?case by simp
next
  case (2 sep c cs)
  then show ?case by (cases k) (auto split: if_splits)
qed


lemma split_head_rest:
  assumes "contains m s"
  shows "s = split_head m s @ m @ drop (length (split_head m s) + length m) s"
proof -
  from split_head_decomp [OF assms] obtain post where p: "s = split_head m s @ m @ post" ..
  have "drop (length (split_head m s) + length m) (split_head m s @ m @ post) = post"
    by simp
  with p show ?thesis by metis
qed

lemma mutator_found:
  assumes "re_search pat base = Some m"
  shows "base = split_head m base @ m @ drop (length (split_head m base) + length m) base"
    and "\<forall>k<length (split_head m base). \<not> startswith m (drop k base)"
  using re_search_contains [OF assms] split_head_rest split_head_first by blast+

lemma parse_level_subdivides:
  assumes "snd (get_page_info r) = Inr (p, h)"
    and "truthy (map_of (get_level (subdivision_hierarchy city p h) (resp_meta_level r)) ''should_subdivide'')"
  shows "yielded (parse_level city r) =
           yielded (subdivide city r (resp_meta_level r)
             (get_level (subdivision_hierarchy city p h) (resp_meta_level r)))"
    and "raised (parse_level city r) =
           raised (subdivide city r (resp_meta_level r)
             (get_level (subdivision_hierarchy city p h) (resp_meta_level r)))"
  using assms by (cases "get_page_info r"; simp add: parse_level_def Let_def)+

lemma subdivide_city:
  "subdivide city r (Some ''city'') (get_level (subdivision_hierarchy city p h) (Some ''city'')) =
     \<lparr>logged = [], yielded = area_loop city ''area'' (extract_area_urls r), raised = None\<rparr>"
  by (simp add: subdivide_def get_level_def subdivision_hierarchy_def)

lemma subdivide_area:
  "subdivide city r (Some ''area'') (get_level (subdivision_hierarchy city p h) (Some ''area'')) =
     raise (KeyError ''list'')"
  by (simp add: subdivide_def get_level_def subdivision_hierarchy_def)

lemma subdivide_price:
  "subdivide city r (Some ''price'') (get_level (subdivision_hierarchy city p h) (Some ''price'')) =
     raise (KeyError ''max_pages'')"
  by (simp add: subdivide_def get_level_def subdivision_hierarchy_def)

lemma subdivide_room:
  "subdivide city r (Some ''room'') (get_level (subdivision_hierarchy city p h) (Some ''room'')) =
     \<lparr>logged = fst (modifier_loop Get_direction_url (resp_url r) ''direction'' (map A_str get_direction_list)),
      yielded = snd (modifier_loop Get_direction_url (resp_url r) ''direction'' (map A_str get_direction_list)),
      raised = None\<rparr>"
  by (simp add: subdivide_def get_level_def subdivision_hierarchy_def split: prod.splits)

lemma subdivide_direction:
  "subdivide city r (Some ''direction'') (get_level (subdivision_hierarchy city p h) (Some ''direction'')) =
     \<lparr>logged = fst (modifier_loop Get_floor_url (resp_url r) ''floor'' (map A_str get_floor_list)),
      yielded = snd (modifier_loop Get_floor_url (resp_url r) ''floor'' (map A_str get_floor_list)),
      raised = None\<rparr>"
  by (simp add: subdivide_def get_level_def subdivision_hierarchy_def split: prod.splits)

lemma level_truthy:
  "l \<in> set [''city'', ''area'', ''price'', ''room'', ''direction''] \<Longrightarrow>
   truthy (map_of (get_level (subdivision_hierarchy city p h) (Some l)) ''should_subdivide'')
     = should_subdivide p h"
  by (auto simp: truthy_def get_level_def subdivision_hierarchy_def)

lemma area_loop_map:
  "area_loop city nl us = map (\<lambda>u. Request (base_url city @ u) Parse_level (Some nl) True) us"
  by (induction us) simp_all

lemma modifier_loop_length: "length (snd (modifier_loop m u nl as)) = length as"
  by (induction as) (auto split: prod.splits)

lemma modifier_loop_urls:
  "map req_url (snd (modifier_loop m u nl as)) = map (\<lambda>a. snd (call_modifier m u a)) as"
  by (induction as) (auto simp: Request_def split: prod.splits)

lemma modifier_loop_map:
  "snd (modifier_loop m u nl as) =
     map (\<lambda>a. Request (snd (call_modifier m u a)) Parse_level (Some nl) True) as"
  by (induction as) (auto split: prod.splits)

lemma startswith_take: "startswith p s \<longleftrightarrow> take (length p) s = p"
  by (induction p s rule: startswith.induct) auto

lemma match_here_window:
  "match_here (Pattern lit cls) s = match_here (Pattern lit cls) (take (Suc (length lit)) s)"
proof -
  have a: "startswith lit (take (Suc (length lit)) s) = startswith lit s"
    by (simp add: startswith_take min_def)
  have b: "drop (length lit) (take (Suc (length lit)) s) = take 1 (drop (length lit) s)"
    by (simp add: drop_take)
  show ?thesis
    by (cases "drop (length lit) s") (simp_all add: a b)
qed

lemma match_here_token:
  "c \<in> set cls \<Longrightarrow> match_here (Pattern lit cls) (lit @ c # rest) = Some (lit @ [c])"
  by (simp add: startswith_append)

lemma match_here_form:
  "match_here (Pattern lit cls) s = Some m \<Longrightarrow> \<exists>c. c \<in> set cls \<and> m = lit @ [c]"
  by (auto split: if_splits list.splits)

lemma re_search_form:
  "re_search (Pattern lit cls) s = Some m \<Longrightarrow> \<exists>c. c \<in> set cls \<and> m = lit @ [c]"
proof (induction "Pattern lit cls" s rule: re_search.induct)
  case 1
  then show ?case using match_here_form by fastforce
next
  case (2 c cs)
  then show ?case
    by (cases "match_here (Pattern lit cls) (c # cs)") (use match_here_form in fastforce)+
qed

lemma second_search:
  assumes c: "c \<in> set cls"
    and s: "re_search (Pattern lit cls) (pre @ (lit @ [c2]) @ post) = Some (lit @ [c2])"
    and h: "split_head (lit @ [c2]) (pre @ (lit @ [c2]) @ post) = pre"
  shows "re_search (Pattern lit cls) (pre @ (lit @ [c]) @ rest) = Some (lit @ [c])
       \<and> split_head (lit @ [c]) (pre @ (lit @ [c]) @ rest) = pre"
  using s h
proof (induction pre)
  case Nil
  have "match_here (Pattern lit cls) (lit @ c # rest) = Some (lit @ [c])"
    using c by (rule match_here_token)
  moreover obtain y ys where y: "lit @ c # rest = y # ys"
    by (cases "lit @ c # rest") auto
  moreover have "startswith (lit @ [c]) (lit @ c # rest)"
    by (simp add: startswith_append)
  ultimately show ?case by simp
next
  case (Cons x pre)
  let ?m = "lit @ [c2]" and ?v = "lit @ [c]"
  have ns: "\<not> startswith ?m (x # pre @ ?m @ post)"
    using Cons.prems(2) by (auto split: if_splits)
  have h': "split_head ?m (pre @ ?m @ post) = pre"
    using Cons.prems(2) ns by simp
  have nm: "match_here (Pattern lit cls) (x # pre @ ?m @ post) = None"
  proof (cases "match_here (Pattern lit cls) (x # pre @ ?m @ post)")
    case None
    then show ?thesis .
  next
    case (Some m')
    with Cons.prems(1) have "m' = ?m" by simp
    with Some match_here_startswith ns show ?thesis by blast
  qed
  then have s': "re_search (Pattern lit cls) (pre @ ?m @ post) = Some ?m"
    using Cons.prems(1) by simp
  have w: "take (Suc (length lit)) (x # pre @ ?v @ rest) = take (Suc (length lit)) (x # pre @ ?m @ post)"
    by simp
  have nv: "match_here (Pattern lit cls) (x # pre @ ?v @ rest) = None"
    using nm match_here_window [of lit cls "x # pre @ ?v @ rest"]
      match_here_window [of lit cls "x # pre @ ?m @ post"] w by simp
  have nsv: "\<not> startswith ?v (x # pre @ ?v @ rest)"
  proof
    assume "startswith ?v (x # pre @ ?v @ rest)"
    then obtain t where e: "x # pre @ ?v @ rest = ?v @ t"
      unfolding startswith_append by blast
    have "?v @ t = lit @ c # t" by simp
    with e nv have "match_here (Pattern lit cls) (lit @ c # t) = None"
      by (simp only:)
    with match_here_token [OF c, of lit t] show False by (simp only: option.distinct)
  qed
  from Cons.IH [OF s' h'] nv nsv show ?case by simp
qed


lemma search_after_insert:
  assumes s: "re_search pat base = Some m" and tv: "match_here pat v = Some v"
  shows "re_search pat (split_head m base @ v @ m @ ''/'') = Some v
       \<and> split_head v (split_head m base @ v @ m @ ''/'') = split_head m base"
proof (cases pat)
  case (Pattern lit cls)
  from s Pattern obtain c2 where m: "m = lit @ [c2]"
    using re_search_form by blast
  from tv Pattern obtain c where c: "c \<in> set cls" and v: "v = lit @ [c]"
    using match_here_form by blast
  let ?pre = "split_head m base"
  let ?post = "drop (length ?pre + length m) base"
  have b: "base = ?pre @ m @ ?post"
    using mutator_found(1) [OF s] .
  have s': "re_search (Pattern lit cls) (?pre @ (lit @ [c2]) @ ?post) = Some (lit @ [c2])"
    using s b Pattern m by simp
  have h': "split_head (lit @ [c2]) (?pre @ (lit @ [c2]) @ ?post) = ?pre"
    using b m by simp
  from second_search [OF c s' h', of "m @ ''/''"] show ?thesis
    by (simp add: Pattern v m)
qed

lemma walker_values_are_tokens:
  "list_all (\<lambda>v. match_here get_room_regex v = Some v) get_room_type_list
   \<and> list_all (\<lambda>v. match_here get_direction_regex v = Some v) get_direction_list
   \<and> list_all (\<lambda>v. match_here get_floor_regex v = Some v) get_floor_list"
  by code_simp

section \<open>The claims\<close>

text \<open>
  Claim C1. \<open>should_subdivide\<close> is true exactly when the page count is 100 or the listing
  count exceeds 3000, for every pair of integers. The \<open>floor\<close> entry of the table holds
  the constant \<open>False\<close> whatever the counts are, and a response at level \<open>floor\<close> is
  always handed to the pagination: \<open>parse_level\<close> yields the page requests and nothing
  else, also when the parsed counts satisfy \<open>should_subdivide\<close>.
\<close>

theorem should_subdivide_rule:
  "(should_subdivide total_pages total_listings \<longleftrightarrow> total_pages = 100 \<or> total_listings > 3000)
   \<and> map_of (get_level (subdivision_hierarchy city total_pages total_listings) (Some ''floor''))
         ''should_subdivide'' = Some (V_bool False)
   \<and> (resp_meta_level r = Some ''floor'' \<longrightarrow> snd (get_page_info r) = Inr (p, h) \<longrightarrow>
        yielded (parse_level city r) = yielded (handle_pagination (resp_url r) p)
        \<and> raised (parse_level city r) = None)"
proof -
  have a: "should_subdivide total_pages total_listings \<longleftrightarrow> total_pages = 100 \<or> total_listings > 3000"
    by (simp add: should_subdivide_def)
  have b: "map_of (get_level (subdivision_hierarchy city total_pages total_listings) (Some ''floor''))
         ''should_subdivide'' = Some (V_bool False)"
    by (rule floor_entry)
  have c: "yielded (parse_level city r) = yielded (handle_pagination (resp_url r) p)
        \<and> raised (parse_level city r) = None"
    if l: "resp_meta_level r = Some ''floor''" and g: "snd (get_page_info r) = Inr (p, h)"
  proof -
    have nt: "\<not> truthy (map_of (get_level (subdivision_hierarchy city p h) (resp_meta_level r))
                  ''should_subdivide'')"
      by (simp add: l floor_entry truthy_def)
    have "raised (handle_pagination (resp_url r) p) = None"
      by (simp add: handle_pagination_def)
    with parse_level_paginates [OF g nt] show ?thesis by simp
  qed
  from a b c show ?thesis by blast
qed

theorem should_subdivide_rule_witness:
  "should_subdivide 100 5000
   \<and> yielded (parse_level ''tj''
        \<lparr>resp_url = ''https://tj.lianjia.com/zufang/lc200500000001/'', status = 200,
         location = Utf8 '''', resp_meta_level = Some ''floor'', data_totalpage = Some ''100'',
         title_hl = Some ''5000'', area_hrefs = []\<rparr>)
     = yielded (handle_pagination ''https://tj.lianjia.com/zufang/lc200500000001/'' 100)
   \<and> raised (parse_level ''tj''
        \<lparr>resp_url = ''https://tj.lianjia.com/zufang/lc200500000001/'', status = 200,
         location = Utf8 '''', resp_meta_level = Some ''floor'', data_totalpage = Some ''100'',
         title_hl = Some ''5000'', area_hrefs = []\<rparr>) = None"
proof -
  have g: "snd (get_page_info
        \<lparr>resp_url = ''https://tj.lianjia.com/zufang/lc200500000001/'', status = 200,
         location = Utf8 '''', resp_meta_level = Some ''floor'', data_totalpage = Some ''100'',
         title_hl = Some ''5000'', area_hrefs = []\<rparr>) = Inr (100, 5000)"
    by code_simp
  show ?thesis
    using should_subdivide_rule [of 100 5000 "''tj''"
        "\<lparr>resp_url = ''https://tj.lianjia.com/zufang/lc200500000001/'', status = 200,
         location = Utf8 '''', resp_meta_level = Some ''floor'', data_totalpage = Some ''100'',
         title_hl = Some ''5000'', area_hrefs = []\<rparr>" 100 5000] g
    by simp
qed

text \<open>
  Claim C10. \<open>get_price_url\<close> appends: for every base URL and band index the result is
  the base followed by \<open>rp\<close>, the decimal digits of the index and \<open>/\<close>. It searches for
  nothing, never returns its input, and applied twice it leaves two price tokens in the
  URL.
\<close>

theorem get_price_url_appends:
  "get_price_url b n = b @ ''rp'' @ str_int n @ ''/''
   \<and> get_price_url b n \<noteq> b
   \<and> get_price_url (get_price_url b n) m = b @ ''rp'' @ str_int n @ ''/'' @ ''rp'' @ str_int m @ ''/''"
  by (simp add: get_price_url_def)

text \<open>
  Claim C9. \<open>parse_integer\<close> returns an integer on every input and never raises: it gives
  the value of \<open>int\<close> when that succeeds, and 0 with one warning naming the input when
  \<open>int\<close> raises, which it does on \<open>None\<close> and on any string that is not a decimal
  integer. Hence reading both summary counts of a response never raises either.
\<close>

theorem parse_integer_total:
  "(\<exists>l n. parse_integer v = (l, Inr n))
   \<and> parse_integer v =
       (case py_int v of
          Inr n \<Rightarrow> ([], Inr n)
        | Inl e \<Rightarrow> ([(WARNING, Invalid_integer v)], Inr 0))
   \<and> py_int None = Inl TypeError
   \<and> (\<exists>l p h. get_page_info r = (l, Inr (p, h)))"
  using parse_integer_returns [of v] parse_integer_eq [of v] get_page_info_returns [of r]
  by (simp add: py_int_def)

text \<open>Malformed and missing inputs, and a well-formed one.\<close>

lemma parse_integer_examples:
  "parse_integer None = ([(WARNING, Invalid_integer None)], Inr 0)
   \<and> parse_integer (Some ''abc'') = ([(WARNING, Invalid_integer (Some ''abc''))], Inr 0)
   \<and> parse_integer (Some '''') = ([(WARNING, Invalid_integer (Some ''''))], Inr 0)
   \<and> parse_integer (Some ''3000+'') = ([(WARNING, Invalid_integer (Some ''3000+''))], Inr 0)
   \<and> parse_integer (Some ''42'') = ([], Inr 42)"
  by code_simp

text \<open>
  Claim C8. For a positive page count \<open>handle_pagination\<close> yields one request per page
  number from 1 to the count, in order, each on the node's URL followed by \<open>pg\<close>, the page
  number and \<open>/\<close>, and logs nothing. For a page count of 0 it yields no request, logs one
  warning holding the node's URL, and does not raise. A node that \<open>parse_level\<close> does not
  subdivide yields exactly these requests.
\<close>

theorem pagination_requests:
  "(0 < total_pages \<longrightarrow>
      handle_pagination base total_pages =
        \<lparr>logged = [],
         yielded = map (\<lambda>n. Request (base @ ''pg'' @ str_int n @ ''/'') Parse_data None True)
                     [1..total_pages],
         raised = None\<rparr>
      \<and> length (yielded (handle_pagination base total_pages)) = nat total_pages)
   \<and> handle_pagination base 0 =
        \<lparr>logged = [(WARNING, No_pagination_data base)], yielded = [], raised = None\<rparr>
   \<and> (snd (get_page_info r) = Inr (p, h) \<longrightarrow>
       \<not> truthy (map_of (get_level (subdivision_hierarchy city p h) (resp_meta_level r))
                   ''should_subdivide'') \<longrightarrow>
       yielded (parse_level city r) = yielded (handle_pagination (resp_url r) p)
       \<and> raised (parse_level city r) = None)"
proof -
  have a: "handle_pagination base total_pages =
        \<lparr>logged = [],
         yielded = map (\<lambda>n. Request (base @ ''pg'' @ str_int n @ ''/'') Parse_data None True)
                     [1..total_pages],
         raised = None\<rparr>
      \<and> length (yielded (handle_pagination base total_pages)) = nat total_pages"
    if "0 < total_pages"
    using that by (simp add: handle_pagination_def page_requests_map)
  have b: "handle_pagination base 0 =
        \<lparr>logged = [(WARNING, No_pagination_data base)], yielded = [], raised = None\<rparr>"
    by (simp add: handle_pagination_def)
  have c: "yielded (parse_level city r) = yielded (handle_pagination (resp_url r) p)
       \<and> raised (parse_level city r) = None"
    if g: "snd (get_page_info r) = Inr (p, h)"
      and nt: "\<not> truthy (map_of (get_level (subdivision_hierarchy city p h) (resp_meta_level r))
                   ''should_subdivide'')"
  proof -
    have "raised (handle_pagination (resp_url r) p) = None"
      by (simp add: handle_pagination_def)
    with parse_level_paginates [OF g nt] show ?thesis by simp
  qed
  from a b c show ?thesis by blast
qed

theorem pagination_requests_witness:
  "yielded (parse_level ''tj''
        \<lparr>resp_url = ''https://tj.lianjia.com/zufang/heping/'', status = 200,
         location = Utf8 '''', resp_meta_level = Some ''area'', data_totalpage = Some ''3'',
         title_hl = Some ''80'', area_hrefs = []\<rparr>)
     = [Request ''https://tj.lianjia.com/zufang/heping/pg1/'' Parse_data None True,
        Request ''https://tj.lianjia.com/zufang/heping/pg2/'' Parse_data None True,
        Request ''https://tj.lianjia.com/zufang/heping/pg3/'' Parse_data None True]
   \<and> raised (parse_level ''tj''
        \<lparr>resp_url = ''https://tj.lianjia.com/zufang/heping/'', status = 200,
         location = Utf8 '''', resp_meta_level = Some ''area'', data_totalpage = Some ''3'',
         title_hl = Some ''80'', area_hrefs = []\<rparr>) = None
   \<and> length (yielded (handle_pagination ''https://tj.lianjia.com/zufang/heping/'' 3)) = 3"
proof -
  let ?r = "\<lparr>resp_url = ''https://tj.lianjia.com/zufang/heping/'', status = 200,
         location = Utf8 '''', resp_meta_level = Some ''area'', data_totalpage = Some ''3'',
         title_hl = Some ''80'', area_hrefs = []\<rparr>"
  have g: "snd (get_page_info ?r) = Inr (3, 80)"
    by code_simp
  have nt: "\<not> truthy (map_of (get_level (subdivision_hierarchy ''tj'' 3 80) (resp_meta_level ?r))
                   ''should_subdivide'')"
    by code_simp
  have s: "map str_int [1..3] = [''1'', ''2'', ''3'']"
    by code_simp
  have u: "[1..3::int] = [1, 2, 3]"
    by code_simp
  from pagination_requests [of 3 "''https://tj.lianjia.com/zufang/heping/''" ?r 3 80 "''tj''"] g nt s u
  show ?thesis
    by simp
qed

text \<open>
  What \<open>parse_level\<close> yields at each level of the table when the parsed counts call for
  a subdivision.
\<close>

lemma parse_level_at_level:
  assumes g: "snd (get_page_info r) = Inr (p, h)" and s: "should_subdivide p h"
    and l: "resp_meta_level r = Some lv"
    and m: "lv \<in> set [''city'', ''area'', ''price'', ''room'', ''direction'']"
  shows "yielded (parse_level city r) =
           yielded (subdivide city r (Some lv) (get_level (subdivision_hierarchy city p h) (Some lv)))"
    and "raised (parse_level city r) =
           raised (subdivide city r (Some lv) (get_level (subdivision_hierarchy city p h) (Some lv)))"
proof -
  have t: "truthy (map_of (get_level (subdivision_hierarchy city p h) (resp_meta_level r))
             ''should_subdivide'')"
    using level_truthy [OF m] s l by simp
  from parse_level_subdivides [OF g t] l
  show "yielded (parse_level city r) =
           yielded (subdivide city r (Some lv) (get_level (subdivision_hierarchy city p h) (Some lv)))"
    and "raised (parse_level city r) =
           raised (subdivide city r (Some lv) (get_level (subdivision_hierarchy city p h) (Some lv)))"
    by simp_all
qed

lemma parse_level_city:
  assumes "snd (get_page_info r) = Inr (p, h)" and "should_subdivide p h"
    and "resp_meta_level r = Some ''city''"
  shows "yielded (parse_level city r) =
           map (\<lambda>u. Request (base_url city @ u) Parse_level (Some ''area'') True) (area_hrefs r)
         \<and> raised (parse_level city r) = None"
  using parse_level_at_level [OF assms, of city]
  by (simp add: subdivide_city area_loop_map extract_area_urls_def)

lemma parse_level_area:
  assumes "snd (get_page_info r) = Inr (p, h)" and "should_subdivide p h"
    and "resp_meta_level r = Some ''area''"
  shows "yielded (parse_level city r) = [] \<and> raised (parse_level city r) = Some (KeyError ''list'')"
  using parse_level_at_level [OF assms, of city]
  by (simp add: subdivide_area raise_def)

lemma parse_level_price:
  assumes "snd (get_page_info r) = Inr (p, h)" and "should_subdivide p h"
    and "resp_meta_level r = Some ''price''"
  shows "yielded (parse_level city r) = []
         \<and> raised (parse_level city r) = Some (KeyError ''max_pages'')"
  using parse_level_at_level [OF assms, of city]
  by (simp add: subdivide_price raise_def)

lemma parse_level_room:
  assumes "snd (get_page_info r) = Inr (p, h)" and "should_subdivide p h"
    and "resp_meta_level r = Some ''room''"
  shows "yielded (parse_level city r) =
           map (\<lambda>v. Request (snd (get_direction_url (resp_url r) v)) Parse_level
                       (Some ''direction'') True) get_direction_list
         \<and> raised (parse_level city r) = None"
  using parse_level_at_level [OF assms, of city]
  by (simp add: subdivide_room modifier_loop_map comp_def)

lemma parse_level_direction:
  assumes "snd (get_page_info r) = Inr (p, h)" and "should_subdivide p h"
    and "resp_meta_level r = Some ''direction''"
  shows "yielded (parse_level city r) =
           map (\<lambda>v. Request (snd (get_floor_url (resp_url r) v)) Parse_level
                       (Some ''floor'') True) get_floor_list
         \<and> raised (parse_level city r) = None"
  using parse_level_at_level [OF assms, of city]
  by (simp add: subdivide_direction modifier_loop_map comp_def)

text \<open>
  Claim C2. When \<open>should_subdivide\<close> holds for the parsed counts, \<open>parse_level\<close> yields one
  child request per scraped area link at the \<open>city\<close> level, one per orientation code at
  the \<open>room\<close> level and one per floor code at the \<open>direction\<close> level. At the \<open>area\<close>
  level it yields no request and stops with \<open>KeyError\<close> on the key \<open>list\<close>: the loop over
  the price bands is guarded by \<open>current_level == 'price'\<close>, while \<open>max_pages\<close> is a key
  of the \<open>area\<close> entry. At the \<open>price\<close> level the same guard sends the code to
  \<open>max_pages\<close>, which the \<open>price\<close> entry lacks: no request, and \<open>KeyError\<close> again.
\<close>

theorem parse_level_subdividing:
  assumes "snd (get_page_info r) = Inr (p, h)" and "should_subdivide p h"
  shows "(resp_meta_level r = Some ''city'' \<longrightarrow>
            yielded (parse_level city r) =
              map (\<lambda>u. Request (base_url city @ u) Parse_level (Some ''area'') True) (area_hrefs r)
            \<and> raised (parse_level city r) = None)
       \<and> (resp_meta_level r = Some ''area'' \<longrightarrow>
            yielded (parse_level city r) = []
            \<and> raised (parse_level city r) = Some (KeyError ''list''))
       \<and> (resp_meta_level r = Some ''price'' \<longrightarrow>
            yielded (parse_level city r) = []
            \<and> raised (parse_level city r) = Some (KeyError ''max_pages''))
       \<and> (resp_meta_level r = Some ''room'' \<longrightarrow>
            yielded (parse_level city r) =
              map (\<lambda>v. Request (snd (get_direction_url (resp_url r) v)) Parse_level
                          (Some ''direction'') True) get_direction_list
            \<and> raised (parse_level city r) = None)
       \<and> (resp_meta_level r = Some ''direction'' \<longrightarrow>
            yielded (parse_level city r) =
              map (\<lambda>v. Request (snd (get_floor_url (resp_url r) v)) Parse_level
                          (Some ''floor'') True) get_floor_list
            \<and> raised (parse_level city r) = None)"
  using parse_level_city [OF assms] parse_level_area [OF assms] parse_level_price [OF assms]
    parse_level_room [OF assms] parse_level_direction [OF assms]
  by blast

theorem parse_level_subdividing_witness:
  "should_subdivide 100 5000
   \<and> yielded (parse_level ''tj''
        \<lparr>resp_url = ''https://tj.lianjia.com/zufang/heping/'', status = 200,
         location = Utf8 '''', resp_meta_level = Some ''area'', data_totalpage = Some ''100'',
         title_hl = Some ''5000'', area_hrefs = []\<rparr>) = []
   \<and> raised (parse_level ''tj''
        \<lparr>resp_url = ''https://tj.lianjia.com/zufang/heping/'', status = 200,
         location = Utf8 '''', resp_meta_level = Some ''area'', data_totalpage = Some ''100'',
         title_hl = Some ''5000'', area_hrefs = []\<rparr>) = Some (KeyError ''list'')
   \<and> yielded (parse_level ''tj''
        \<lparr>resp_url = ''https://tj.lianjia.com/zufang/heping/rp3/'', status = 200,
         location = Utf8 '''', resp_meta_level = Some ''price'', data_totalpage = Some ''100'',
         title_hl = Some ''5000'', area_hrefs = []\<rparr>) = []
   \<and> raised (parse_level ''tj''
        \<lparr>resp_url = ''https://tj.lianjia.com/zufang/heping/rp3/'', status = 200,
         location = Utf8 '''', resp_meta_level = Some ''price'', data_totalpage = Some ''100'',
         title_hl = Some ''5000'', area_hrefs = []\<rparr>) = Some (KeyError ''max_pages'')"
proof -
  let ?a = "\<lparr>resp_url = ''https://tj.lianjia.com/zufang/heping/'', status = 200,
         location = Utf8 '''', resp_meta_level = Some ''area'', data_totalpage = Some ''100'',
         title_hl = Some ''5000'', area_hrefs = []\<rparr>"
  let ?b = "\<lparr>resp_url = ''https://tj.lianjia.com/zufang/heping/rp3/'', status = 200,
         location = Utf8 '''', resp_meta_level = Some ''price'', data_totalpage = Some ''100'',
         title_hl = Some ''5000'', area_hrefs = []\<rparr>"
  have s: "should_subdivide 100 5000"
    by (simp add: should_subdivide_def)
  have ga: "snd (get_page_info ?a) = Inr (100, 5000)"
    by code_simp
  have gb: "snd (get_page_info ?b) = Inr (100, 5000)"
    by code_simp
  from parse_level_subdividing [OF ga s, of "''tj''"] parse_level_subdividing [OF gb s, of "''tj''"] s
  show ?thesis by simp
qed


text \<open>
  Claim C3, as the code has it. When the pattern of \<open>get_room_url\<close>, \<open>get_direction_url\<close>
  or \<open>get_floor_url\<close> matches in the base URL, with \<open>m\<close> the matched token, the result is
  the text of the base URL before the first occurrence of \<open>m\<close>, then the new value, then
  \<open>m\<close> itself, then \<open>/\<close>. The text before the token is unchanged, the token is kept
  with the new value inserted in front of it, and the text after the token is dropped.
  When the value is itself a token of the mutator's pattern, as every value of the three
  lists is, mutating the result again with the same value gives the text before the
  token, the value twice, and \<open>/\<close>: this is the first result exactly when the value is
  the matched token.
\<close>

theorem url_mutator_inserts_before_anchor:
  "(re_search get_room_regex base = Some m \<longrightarrow>
      get_room_url base v = ([], split_head m base @ v @ m @ ''/'')
      \<and> base = split_head m base @ m @ drop (length (split_head m base) + length m) base
      \<and> (\<forall>k<length (split_head m base). \<not> startswith m (drop k base))
      \<and> (match_here get_room_regex v = Some v \<longrightarrow>
           get_room_url (snd (get_room_url base v)) v = ([], split_head m base @ v @ v @ ''/'')
           \<and> (snd (get_room_url (snd (get_room_url base v)) v) = snd (get_room_url base v)
                \<longleftrightarrow> v = m)))
   \<and> (re_search get_direction_regex base = Some m \<longrightarrow>
      get_direction_url base v = ([], split_head m base @ v @ m @ ''/'')
      \<and> base = split_head m base @ m @ drop (length (split_head m base) + length m) base
      \<and> (\<forall>k<length (split_head m base). \<not> startswith m (drop k base))
      \<and> (match_here get_direction_regex v = Some v \<longrightarrow>
           get_direction_url (snd (get_direction_url base v)) v
             = ([], split_head m base @ v @ v @ ''/'')
           \<and> (snd (get_direction_url (snd (get_direction_url base v)) v)
                  = snd (get_direction_url base v)
                \<longleftrightarrow> v = m)))
   \<and> (re_search get_floor_regex base = Some m \<longrightarrow>
      get_floor_url base v = ([], split_head m base @ v @ m @ ''/'')
      \<and> base = split_head m base @ m @ drop (length (split_head m base) + length m) base
      \<and> (\<forall>k<length (split_head m base). \<not> startswith m (drop k base))
      \<and> (match_here get_floor_regex v = Some v \<longrightarrow>
           get_floor_url (snd (get_floor_url base v)) v = ([], split_head m base @ v @ v @ ''/'')
           \<and> (snd (get_floor_url (snd (get_floor_url base v)) v) = snd (get_floor_url base v)
                \<longleftrightarrow> v = m)))"
proof -
  have a: "get_room_url base v = ([], split_head m base @ v @ m @ ''/'')"
    if "re_search get_room_regex base = Some m"
    using that by (simp add: get_room_url_def)
  have b: "get_direction_url base v = ([], split_head m base @ v @ m @ ''/'')"
    if "re_search get_direction_regex base = Some m"
    using that by (simp add: get_direction_url_def)
  have c: "get_floor_url base v = ([], split_head m base @ v @ m @ ''/'')"
    if "re_search get_floor_regex base = Some m"
    using that by (simp add: get_floor_url_def)
  have d: "base = split_head m base @ m @ drop (length (split_head m base) + length m) base
      \<and> (\<forall>k<length (split_head m base). \<not> startswith m (drop k base))"
    if "re_search pat base = Some m" for pat
    using mutator_found [OF that] by blast
  have a2: "get_room_url (snd (get_room_url base v)) v = ([], split_head m base @ v @ v @ ''/'')
           \<and> (snd (get_room_url (snd (get_room_url base v)) v) = snd (get_room_url base v)
                \<longleftrightarrow> v = m)"
    if s: "re_search get_room_regex base = Some m" and t: "match_here get_room_regex v = Some v"
  proof -
    from search_after_insert [OF s t]
    have "get_room_url (split_head m base @ v @ m @ ''/'') v
            = ([], split_head m base @ v @ v @ ''/'')"
      by (simp add: get_room_url_def)
    then show ?thesis by (simp add: a [OF s])
  qed
  have b2: "get_direction_url (snd (get_direction_url base v)) v
             = ([], split_head m base @ v @ v @ ''/'')
           \<and> (snd (get_direction_url (snd (get_direction_url base v)) v)
                  = snd (get_direction_url base v)
                \<longleftrightarrow> v = m)"
    if s: "re_search get_direction_regex base = Some m"
      and t: "match_here get_direction_regex v = Some v"
  proof -
    from search_after_insert [OF s t]
    have "get_direction_url (split_head m base @ v @ m @ ''/'') v
            = ([], split_head m base @ v @ v @ ''/'')"
      by (simp add: get_direction_url_def)
    then show ?thesis by (simp add: b [OF s])
  qed
  have c2: "get_floor_url (snd (get_floor_url base v)) v = ([], split_head m base @ v @ v @ ''/'')
           \<and> (snd (get_floor_url (snd (get_floor_url base v)) v) = snd (get_floor_url base v)
                \<longleftrightarrow> v = m)"
    if s: "re_search get_floor_regex base = Some m" and t: "match_here get_floor_regex v = Some v"
  proof -
    from search_after_insert [OF s t]
    have "get_floor_url (split_head m base @ v @ m @ ''/'') v
            = ([], split_head m base @ v @ v @ ''/'')"
      by (simp add: get_floor_url_def)
    then show ?thesis by (simp add: c [OF s])
  qed
  from a b c d a2 b2 c2 show ?thesis by blast
qed

theorem url_mutator_inserts_before_anchor_witness:
  "re_search get_room_regex ''https://tj.lianjia.com/zufang/l1rp3/'' = Some ''l1''
   \<and> get_room_url ''https://tj.lianjia.com/zufang/l1rp3/'' ''l2''
       = ([], ''https://tj.lianjia.com/zufang/l2l1/'')
   \<and> match_here get_room_regex ''l2'' = Some ''l2''
   \<and> get_room_url (snd (get_room_url ''https://tj.lianjia.com/zufang/l1rp3/'' ''l2'')) ''l2''
       = ([], ''https://tj.lianjia.com/zufang/l2l2/'')
   \<and> match_here get_room_regex ''l1'' = Some ''l1''
   \<and> get_room_url (snd (get_room_url ''https://tj.lianjia.com/zufang/l1rp3/'' ''l1'')) ''l1''
       = ([], ''https://tj.lianjia.com/zufang/l1l1/'')
   \<and> snd (get_room_url (snd (get_room_url ''https://tj.lianjia.com/zufang/l1rp3/'' ''l1'')) ''l1'')
       = snd (get_room_url ''https://tj.lianjia.com/zufang/l1rp3/'' ''l1'')
   \<and> re_search get_direction_regex ''https://tj.lianjia.com/zufang/f100500000001l1rp3/''
       = Some ''f100500000001''
   \<and> get_direction_url ''https://tj.lianjia.com/zufang/f100500000001l1rp3/'' ''f100500000005''
       = ([], ''https://tj.lianjia.com/zufang/f100500000005f100500000001/'')
   \<and> re_search get_floor_regex ''https://tj.lianjia.com/zufang/lc200500000001/''
       = Some ''lc200500000001''
   \<and> get_floor_url ''https://tj.lianjia.com/zufang/lc200500000001/'' ''lc200500000003''
       = ([], ''https://tj.lianjia.com/zufang/lc200500000003lc200500000001/'')"
proof -
  have r: "re_search get_room_regex ''https://tj.lianjia.com/zufang/l1rp3/'' = Some ''l1''"
    by code_simp
  have d: "re_search get_direction_regex ''https://tj.lianjia.com/zufang/f100500000001l1rp3/''
       = Some ''f100500000001''"
    by code_simp
  have f: "re_search get_floor_regex ''https://tj.lianjia.com/zufang/lc200500000001/''
       = Some ''lc200500000001''"
    by code_simp
  have t2: "match_here get_room_regex ''l2'' = Some ''l2''"
    by code_simp
  have t1: "match_here get_room_regex ''l1'' = Some ''l1''"
    by code_simp
  have sr: "split_head ''l1'' ''https://tj.lianjia.com/zufang/l1rp3/''
       = ''https://tj.lianjia.com/zufang/''"
    by code_simp
  have sd: "split_head ''f100500000001'' ''https://tj.lianjia.com/zufang/f100500000001l1rp3/''
       = ''https://tj.lianjia.com/zufang/''"
    by code_simp
  have sf: "split_head ''lc200500000001'' ''https://tj.lianjia.com/zufang/lc200500000001/''
       = ''https://tj.lianjia.com/zufang/''"
    by code_simp
  note T = url_mutator_inserts_before_anchor
  have a: "get_room_url ''https://tj.lianjia.com/zufang/l1rp3/'' ''l2''
       = ([], split_head ''l1'' ''https://tj.lianjia.com/zufang/l1rp3/'' @ ''l2'' @ ''l1'' @ ''/'')"
    using T [of "''https://tj.lianjia.com/zufang/l1rp3/''" "''l1''" "''l2''"] r by blast
  have a2: "get_room_url (snd (get_room_url ''https://tj.lianjia.com/zufang/l1rp3/'' ''l2'')) ''l2''
       = ([], split_head ''l1'' ''https://tj.lianjia.com/zufang/l1rp3/'' @ ''l2'' @ ''l2'' @ ''/'')"
    using T [of "''https://tj.lianjia.com/zufang/l1rp3/''" "''l1''" "''l2''"] r t2 by blast
  have a1: "get_room_url (snd (get_room_url ''https://tj.lianjia.com/zufang/l1rp3/'' ''l1'')) ''l1''
       = ([], split_head ''l1'' ''https://tj.lianjia.com/zufang/l1rp3/'' @ ''l1'' @ ''l1'' @ ''/'')
     \<and> snd (get_room_url (snd (get_room_url ''https://tj.lianjia.com/zufang/l1rp3/'' ''l1'')) ''l1'')
       = snd (get_room_url ''https://tj.lianjia.com/zufang/l1rp3/'' ''l1'')"
    using T [of "''https://tj.lianjia.com/zufang/l1rp3/''" "''l1''" "''l1''"] r t1 by blast
  have b: "get_direction_url ''https://tj.lianjia.com/zufang/f100500000001l1rp3/'' ''f100500000005''
       = ([], split_head ''f100500000001'' ''https://tj.lianjia.com/zufang/f100500000001l1rp3/''
                @ ''f100500000005'' @ ''f100500000001'' @ ''/'')"
    using T [of "''https://tj.lianjia.com/zufang/f100500000001l1rp3/''" "''f100500000001''"
                "''f100500000005''"] d by blast
  have c: "get_floor_url ''https://tj.lianjia.com/zufang/lc200500000001/'' ''lc200500000003''
       = ([], split_head ''lc200500000001'' ''https://tj.lianjia.com/zufang/lc200500000001/''
                @ ''lc200500000003'' @ ''lc200500000001'' @ ''/'')"
    using T [of "''https://tj.lianjia.com/zufang/lc200500000001/''" "''lc200500000001''"
                "''lc200500000003''"] f by blast
  have "get_room_url ''https://tj.lianjia.com/zufang/l1rp3/'' ''l2''
       = ([], ''https://tj.lianjia.com/zufang/l2l1/'')"
    using a sr by simp
  moreover have "get_room_url (snd (get_room_url ''https://tj.lianjia.com/zufang/l1rp3/'' ''l2'')) ''l2''
       = ([], ''https://tj.lianjia.com/zufang/l2l2/'')"
    using a2 sr by simp
  moreover have "get_room_url (snd (get_room_url ''https://tj.lianjia.com/zufang/l1rp3/'' ''l1'')) ''l1''
       = ([], ''https://tj.lianjia.com/zufang/l1l1/'')"
    using a1 sr by simp
  moreover have "snd (get_room_url (snd (get_room_url ''https://tj.lianjia.com/zufang/l1rp3/'' ''l1'')) ''l1'')
       = snd (get_room_url ''https://tj.lianjia.com/zufang/l1rp3/'' ''l1'')"
    using a1 by blast
  moreover have "get_direction_url ''https://tj.lianjia.com/zufang/f100500000001l1rp3/'' ''f100500000005''
       = ([], ''https://tj.lianjia.com/zufang/f100500000005f100500000001/'')"
    using b sd by simp
  moreover have "get_floor_url ''https://tj.lianjia.com/zufang/lc200500000001/'' ''lc200500000003''
       = ([], ''https://tj.lianjia.com/zufang/lc200500000003lc200500000001/'')"
    using c sf by simp
  ultimately show ?thesis
    using r d f t1 t2 by (intro conjI) assumption+
qed

text \<open>
  Claim C3 as stated fails. In \<open>https://tj.lianjia.com/zufang/l1rp3/\<close> the room token
  \<open>l1\<close> is found; replacing it by \<open>l2\<close> and keeping the rest would give
  \<open>.../zufang/l2rp3/\<close>, but \<open>get_room_url\<close> gives \<open>.../zufang/l2l1/\<close>. Mutating that
  result again with \<open>l2\<close> gives \<open>.../zufang/l2l2/\<close>, a different URL: the mutation is
  not idempotent.
\<close>

theorem url_mutator_replace_counterexample:
  "re_search get_room_regex ''https://tj.lianjia.com/zufang/l1rp3/'' = Some ''l1''
   \<and> ''https://tj.lianjia.com/zufang/l1rp3/'' = ''https://tj.lianjia.com/zufang/'' @ ''l1'' @ ''rp3/''
   \<and> snd (get_room_url ''https://tj.lianjia.com/zufang/l1rp3/'' ''l2'')
       = ''https://tj.lianjia.com/zufang/l2l1/''
   \<and> snd (get_room_url ''https://tj.lianjia.com/zufang/l1rp3/'' ''l2'')
       \<noteq> ''https://tj.lianjia.com/zufang/'' @ ''l2'' @ ''rp3/''
   \<and> snd (get_room_url (snd (get_room_url ''https://tj.lianjia.com/zufang/l1rp3/'' ''l2'')) ''l2'')
       = ''https://tj.lianjia.com/zufang/l2l2/''
   \<and> snd (get_room_url (snd (get_room_url ''https://tj.lianjia.com/zufang/l1rp3/'' ''l2'')) ''l2'')
       \<noteq> snd (get_room_url ''https://tj.lianjia.com/zufang/l1rp3/'' ''l2'')"
  by code_simp

text \<open>
  Claim C4, as the code has it. When its pattern does not match in the base URL, each of
  \<open>get_room_url\<close>, \<open>get_direction_url\<close> and \<open>get_floor_url\<close> logs one warning holding
  the URL and returns the URL unchanged. \<open>parse_level\<close> does not compare the result with
  the URL of the response: at the \<open>room\<close> and \<open>direction\<close> levels it still yields one
  request per value of the list, each on the URL of the parent and with \<open>dont_filter\<close>
  set.
\<close>

theorem anchor_not_found_keeps_url_and_child:
  "(re_search get_room_regex base = None \<longrightarrow>
      get_room_url base v = ([(WARNING, Room_pattern_not_found base)], base))
   \<and> (re_search get_direction_regex base = None \<longrightarrow>
      get_direction_url base v = ([(WARNING, Direction_pattern_not_found base)], base))
   \<and> (re_search get_floor_regex base = None \<longrightarrow>
      get_floor_url base v = ([(WARNING, Floor_pattern_not_found base)], base))
   \<and> (resp_meta_level r = Some ''room'' \<longrightarrow> snd (get_page_info r) = Inr (p, h) \<longrightarrow>
      should_subdivide p h \<longrightarrow> re_search get_direction_regex (resp_url r) = None \<longrightarrow>
        yielded (parse_level city r) =
          map (\<lambda>v. Request (resp_url r) Parse_level (Some ''direction'') True) get_direction_list
        \<and> raised (parse_level city r) = None)
   \<and> (resp_meta_level r = Some ''direction'' \<longrightarrow> snd (get_page_info r) = Inr (p, h) \<longrightarrow>
      should_subdivide p h \<longrightarrow> re_search get_floor_regex (resp_url r) = None \<longrightarrow>
        yielded (parse_level city r) =
          map (\<lambda>v. Request (resp_url r) Parse_level (Some ''floor'') True) get_floor_list
        \<and> raised (parse_level city r) = None)"
proof -
  have a: "get_room_url base v = ([(WARNING, Room_pattern_not_found base)], base)"
    if "re_search get_room_regex base = None"
    using that by (simp add: get_room_url_def)
  have b: "get_direction_url u w = ([(WARNING, Direction_pattern_not_found u)], u)"
    if "re_search get_direction_regex u = None" for u w
    using that by (simp add: get_direction_url_def)
  have c: "get_floor_url u w = ([(WARNING, Floor_pattern_not_found u)], u)"
    if "re_search get_floor_regex u = None" for u w
    using that by (simp add: get_floor_url_def)
  have d: "yielded (parse_level city r) =
          map (\<lambda>v. Request (resp_url r) Parse_level (Some ''direction'') True) get_direction_list
        \<and> raised (parse_level city r) = None"
    if "resp_meta_level r = Some ''room''" and "snd (get_page_info r) = Inr (p, h)"
      and "should_subdivide p h" and n: "re_search get_direction_regex (resp_url r) = None"
    using parse_level_room [OF that(2) that(3) that(1), of city] by (simp add: b [OF n])
  have e: "yielded (parse_level city r) =
          map (\<lambda>v. Request (resp_url r) Parse_level (Some ''floor'') True) get_floor_list
        \<and> raised (parse_level city r) = None"
    if "resp_meta_level r = Some ''direction''" and "snd (get_page_info r) = Inr (p, h)"
      and "should_subdivide p h" and n: "re_search get_floor_regex (resp_url r) = None"
    using parse_level_direction [OF that(2) that(3) that(1), of city] by (simp add: c [OF n])
  from a b c d e show ?thesis by blast
qed

theorem anchor_not_found_keeps_url_and_child_witness:
  "re_search get_direction_regex ''https://tj.lianjia.com/zufang/heping/l1rp3/'' = None
   \<and> get_direction_url ''https://tj.lianjia.com/zufang/heping/l1rp3/'' ''f100500000001''
       = ([(WARNING, Direction_pattern_not_found ''https://tj.lianjia.com/zufang/heping/l1rp3/'')],
          ''https://tj.lianjia.com/zufang/heping/l1rp3/'')
   \<and> should_subdivide 100 5000
   \<and> yielded (parse_level ''tj''
        \<lparr>resp_url = ''https://tj.lianjia.com/zufang/heping/l1rp3/'', status = 200,
         location = Utf8 '''', resp_meta_level = Some ''room'', data_totalpage = Some ''100'',
         title_hl = Some ''5000'', area_hrefs = []\<rparr>)
       = map (\<lambda>v. Request ''https://tj.lianjia.com/zufang/heping/l1rp3/'' Parse_level
                    (Some ''direction'') True) get_direction_list"
proof -
  let ?u = "''https://tj.lianjia.com/zufang/heping/l1rp3/''"
  let ?r = "\<lparr>resp_url = ?u, status = 200,
         location = Utf8 '''', resp_meta_level = Some ''room'', data_totalpage = Some ''100'',
         title_hl = Some ''5000'', area_hrefs = []\<rparr>"
  have n: "re_search get_direction_regex ?u = None"
    by code_simp
  have s: "should_subdivide 100 5000"
    by (simp add: should_subdivide_def)
  have g: "snd (get_page_info ?r) = Inr (100, 5000)"
    by code_simp
  from anchor_not_found_keeps_url_and_child [of ?u "''f100500000001''" ?r 100 5000 "''tj''"] n s g
  show ?thesis by simp
qed

text \<open>
  Claim C4 as stated fails. The URL \<open>https://tj.lianjia.com/zufang/heping/l1rp3/\<close> holds
  no orientation token; at the \<open>room\<close> level with 100 pages \<open>parse_level\<close> yields five
  requests, and the URL of each is the URL of the parent.
\<close>

theorem walker_skips_child_counterexample:
  "re_search get_direction_regex ''https://tj.lianjia.com/zufang/heping/l1rp3/'' = None
   \<and> map req_url (yielded (parse_level ''tj''
        \<lparr>resp_url = ''https://tj.lianjia.com/zufang/heping/l1rp3/'', status = 200,
         location = Utf8 '''', resp_meta_level = Some ''room'', data_totalpage = Some ''100'',
         title_hl = Some ''5000'', area_hrefs = []\<rparr>))
       = [''https://tj.lianjia.com/zufang/heping/l1rp3/'',
          ''https://tj.lianjia.com/zufang/heping/l1rp3/'',
          ''https://tj.lianjia.com/zufang/heping/l1rp3/'',
          ''https://tj.lianjia.com/zufang/heping/l1rp3/'',
          ''https://tj.lianjia.com/zufang/heping/l1rp3/'']"
  by code_simp

text \<open>
  Claim C5. Take a response that is not a challenge page and lacks the summary marker
  (the XPath query gives nothing, or the empty string), and let \<open>n\<close> be the
  \<open>retry_attempts\<close> counter of the request, 0 when absent. If the request URL is in
  \<open>force_retry_urls\<close>, the request is returned again with the counter at \<open>n + 1\<close>,
  whatever \<open>n\<close> is. For any other URL the request is returned again with the counter at
  \<open>n + 1\<close> while \<open>n\<close> is below the configured \<open>retry_attempts\<close>; once \<open>n\<close> has reached
  it, the handler raises \<open>IgnoreRequest\<close> and returns neither a request nor the response,
  so the callback of that request is never run.
\<close>

theorem missing_total_count_retry:
  assumes "\<not> contains ''captcha'' (resp_url response)"
    and "title_hl response = None \<or> title_hl response = Some []"
    and "n = (case meta_retry_attempts request of None \<Rightarrow> 0 | Some a \<Rightarrow> a)"
  shows "(req_url request \<in> set (force_retry_urls self) \<longrightarrow>
            handle_missing_total_count self request response =
              ([(INFO, Forcing_retry (req_url request) (n + 1))],
               Inr (Return_request
                      (request\<lparr>meta_retry_attempts := Some (n + 1), dont_filter := True\<rparr>))))
       \<and> (req_url request \<notin> set (force_retry_urls self) \<longrightarrow> n < retry_attempts self \<longrightarrow>
            handle_missing_total_count self request response =
              ([(INFO, Retrying_missing_total_count (req_url request) (n + 1))],
               Inr (Return_request
                      (request\<lparr>meta_retry_attempts := Some (n + 1), dont_filter := True\<rparr>))))
       \<and> (req_url request \<notin> set (force_retry_urls self) \<longrightarrow> retry_attempts self \<le> n \<longrightarrow>
            handle_missing_total_count self request response =
              ([(WARNING, Giving_up_missing_total_count (req_url request) n)],
               Inl (IgnoreRequest (''Missing total_count_str after '' @ str_int n @ '' retries''))))"
  using assms by (auto simp: handle_missing_total_count_def retry_request_def Let_def)

theorem missing_total_count_retry_witness:
  "handle_missing_total_count \<lparr>retry_attempts = 10, force_retry_urls = [''https://tj.lianjia.com/zufang/'']\<rparr>
      \<lparr>req_url = ''https://tj.lianjia.com/zufang/'', req_callback = Some Parse_level,
       meta_level = Some ''city'', meta_retry_count = None, meta_retry_attempts = Some 1000,
       dont_filter = False\<rparr>
      \<lparr>resp_url = ''https://tj.lianjia.com/zufang/'', status = 200, location = Utf8 '''',
       resp_meta_level = Some ''city'', data_totalpage = None, title_hl = None, area_hrefs = []\<rparr>
    = ([(INFO, Forcing_retry ''https://tj.lianjia.com/zufang/'' 1001)],
       Inr (Return_request
         \<lparr>req_url = ''https://tj.lianjia.com/zufang/'', req_callback = Some Parse_level,
          meta_level = Some ''city'', meta_retry_count = None, meta_retry_attempts = Some 1001,
          dont_filter = True\<rparr>))
   \<and> handle_missing_total_count \<lparr>retry_attempts = 10, force_retry_urls = []\<rparr>
      \<lparr>req_url = ''https://tj.lianjia.com/zufang/'', req_callback = Some Parse_level,
       meta_level = Some ''city'', meta_retry_count = None, meta_retry_attempts = Some 9,
       dont_filter = False\<rparr>
      \<lparr>resp_url = ''https://tj.lianjia.com/zufang/'', status = 200, location = Utf8 '''',
       resp_meta_level = Some ''city'', data_totalpage = None, title_hl = None, area_hrefs = []\<rparr>
    = ([(INFO, Retrying_missing_total_count ''https://tj.lianjia.com/zufang/'' 10)],
       Inr (Return_request
         \<lparr>req_url = ''https://tj.lianjia.com/zufang/'', req_callback = Some Parse_level,
          meta_level = Some ''city'', meta_retry_count = None, meta_retry_attempts = Some 10,
          dont_filter = True\<rparr>))
   \<and> handle_missing_total_count \<lparr>retry_attempts = 10, force_retry_urls = []\<rparr>
      \<lparr>req_url = ''https://tj.lianjia.com/zufang/'', req_callback = Some Parse_level,
       meta_level = Some ''city'', meta_retry_count = None, meta_retry_attempts = Some 10,
       dont_filter = True\<rparr>
      \<lparr>resp_url = ''https://tj.lianjia.com/zufang/'', status = 200, location = Utf8 '''',
       resp_meta_level = Some ''city'', data_totalpage = None, title_hl = None, area_hrefs = []\<rparr>
    = ([(WARNING, Giving_up_missing_total_count ''https://tj.lianjia.com/zufang/'' 10)],
       Inl (IgnoreRequest ''Missing total_count_str after 10 retries''))"
proof -
  let ?u = "''https://tj.lianjia.com/zufang/''"
  let ?resp = "\<lparr>resp_url = ?u, status = 200, location = Utf8 '''',
       resp_meta_level = Some ''city'', data_totalpage = None, title_hl = None, area_hrefs = []\<rparr>"
  have nc: "\<not> contains ''captcha'' (resp_url ?resp)"
    by code_simp
  have ms: "title_hl ?resp = None \<or> title_hl ?resp = Some []"
    by simp
  have s: "str_int 10 = ''10''"
    by code_simp
  from missing_total_count_retry [OF nc ms, of 1000
         "\<lparr>req_url = ?u, req_callback = Some Parse_level,
       meta_level = Some ''city'', meta_retry_count = None, meta_retry_attempts = Some 1000,
       dont_filter = False\<rparr>" "\<lparr>retry_attempts = 10, force_retry_urls = [?u]\<rparr>"]
       missing_total_count_retry [OF nc ms, of 9
         "\<lparr>req_url = ?u, req_callback = Some Parse_level,
       meta_level = Some ''city'', meta_retry_count = None, meta_retry_attempts = Some 9,
       dont_filter = False\<rparr>" "\<lparr>retry_attempts = 10, force_retry_urls = []\<rparr>"]
       missing_total_count_retry [OF nc ms, of 10
         "\<lparr>req_url = ?u, req_callback = Some Parse_level,
       meta_level = Some ''city'', meta_retry_count = None, meta_retry_attempts = Some 10,
       dont_filter = True\<rparr>" "\<lparr>retry_attempts = 10, force_retry_urls = []\<rparr>"] s
  show ?thesis by simp
qed

text \<open>
  Claim C7, as the code has it. When the URL of the response contains \<open>captcha\<close>,
  \<open>handle_missing_total_count\<close> logs one warning and raises \<open>IgnoreRequest\<close>, whatever the
  request, its counters and the configuration are: also on the first encounter and for a
  URL in \<open>force_retry_urls\<close>. It returns no request, so the \<open>retry_attempts\<close> counter is
  never incremented for such a response. \<open>handle_redirect_response\<close> returns such a
  response as it is, with no request and no counter incremented, when the status is
  neither 301 nor 302, and also when the status is 301 or 302, the \<open>Location\<close> bytes
  decode and the \<open>retry_count\<close> of the request has reached \<open>max_retry_times\<close>.
\<close>

theorem captcha_fails_in_total_count_handler:
  assumes "contains ''captcha'' (resp_url response)"
  shows "handle_missing_total_count self request response =
           ([(WARNING, Captcha_detected (req_url request))],
            Inl (IgnoreRequest (''Captcha detected for '' @ req_url request)))
       \<and> (\<forall>q. snd (handle_missing_total_count self request response) \<noteq> Inr (Return_request q))
       \<and> (status response \<notin> {301, 302} \<longrightarrow>
            handle_redirect_response retry max_retry_times request response =
              ([], Inr (Return_response response)))
       \<and> (status response \<in> {301, 302} \<longrightarrow> location response = Utf8 redirect_url \<longrightarrow>
            max_retry_times \<le> (case meta_retry_count request of None \<Rightarrow> 0 | Some k \<Rightarrow> k) \<longrightarrow>
            snd (handle_redirect_response retry max_retry_times request response) =
              Inr (Return_response response))"
  using assms
  by (auto simp: handle_missing_total_count_def handle_redirect_response_def Let_def)

theorem captcha_fails_in_total_count_handler_witness:
  "handle_missing_total_count \<lparr>retry_attempts = 10, force_retry_urls = [''https://tj.lianjia.com/zufang/'']\<rparr>
      \<lparr>req_url = ''https://tj.lianjia.com/zufang/'', req_callback = Some Parse_level,
       meta_level = Some ''city'', meta_retry_count = None, meta_retry_attempts = None,
       dont_filter = False\<rparr>
      \<lparr>resp_url = ''https://hip.lianjia.com/captcha?location=zufang'', status = 200,
       location = Utf8 [], resp_meta_level = Some ''city'', data_totalpage = None, title_hl = None,
       area_hrefs = []\<rparr>
    = ([(WARNING, Captcha_detected ''https://tj.lianjia.com/zufang/'')],
       Inl (IgnoreRequest ''Captcha detected for https://tj.lianjia.com/zufang/''))
   \<and> handle_redirect_response (\<lambda>q s. Some q) 3
      \<lparr>req_url = ''https://tj.lianjia.com/zufang/'', req_callback = Some Parse_level,
       meta_level = Some ''city'', meta_retry_count = None, meta_retry_attempts = None,
       dont_filter = False\<rparr>
      \<lparr>resp_url = ''https://hip.lianjia.com/captcha?location=zufang'', status = 200,
       location = Utf8 [], resp_meta_level = Some ''city'', data_totalpage = None, title_hl = None,
       area_hrefs = []\<rparr>
    = ([], Inr (Return_response
      \<lparr>resp_url = ''https://hip.lianjia.com/captcha?location=zufang'', status = 200,
       location = Utf8 [], resp_meta_level = Some ''city'', data_totalpage = None, title_hl = None,
       area_hrefs = []\<rparr>))
   \<and> snd (handle_redirect_response (\<lambda>q s. Some q) 3
      \<lparr>req_url = ''https://hip.lianjia.com/captcha?location=zufang'',
       req_callback = Some Parse_level, meta_level = Some ''city'', meta_retry_count = Some 3,
       meta_retry_attempts = None, dont_filter = False\<rparr>
      \<lparr>resp_url = ''https://hip.lianjia.com/captcha?location=zufang'', status = 302,
       location = Utf8 ''https://hip.lianjia.com/login'', resp_meta_level = Some ''city'',
       data_totalpage = None, title_hl = None, area_hrefs = []\<rparr>)
    = Inr (Return_response
      \<lparr>resp_url = ''https://hip.lianjia.com/captcha?location=zufang'', status = 302,
       location = Utf8 ''https://hip.lianjia.com/login'', resp_meta_level = Some ''city'',
       data_totalpage = None, title_hl = None, area_hrefs = []\<rparr>)"
proof -
  let ?resp = "\<lparr>resp_url = ''https://hip.lianjia.com/captcha?location=zufang'', status = 200,
       location = Utf8 [], resp_meta_level = Some ''city'', data_totalpage = None, title_hl = None,
       area_hrefs = []\<rparr>"
  let ?redir = "\<lparr>resp_url = ''https://hip.lianjia.com/captcha?location=zufang'', status = 302,
       location = Utf8 ''https://hip.lianjia.com/login'', resp_meta_level = Some ''city'',
       data_totalpage = None, title_hl = None, area_hrefs = []\<rparr>"
  have c: "contains ''captcha'' (resp_url ?resp)"
    by code_simp
  have d: "contains ''captcha'' (resp_url ?redir)"
    by code_simp
  from captcha_fails_in_total_count_handler [OF c,
      of "\<lparr>retry_attempts = 10, force_retry_urls = [''https://tj.lianjia.com/zufang/'']\<rparr>"
         "\<lparr>req_url = ''https://tj.lianjia.com/zufang/'', req_callback = Some Parse_level,
       meta_level = Some ''city'', meta_retry_count = None, meta_retry_attempts = None,
       dont_filter = False\<rparr>" "\<lambda>q s. Some q" 3 "[]"]
    captcha_fails_in_total_count_handler [OF d,
      of "\<lparr>retry_attempts = 10, force_retry_urls = []\<rparr>"
         "\<lparr>req_url = ''https://hip.lianjia.com/captcha?location=zufang'',
       req_callback = Some Parse_level, meta_level = Some ''city'', meta_retry_count = Some 3,
       meta_retry_attempts = None, dont_filter = False\<rparr>" "\<lambda>q s. Some q" 3
         "''https://hip.lianjia.com/login''"]
  show ?thesis by simp
qed

text \<open>
  Claim C7 as stated fails. For a response with status 302 whose URL contains \<open>captcha\<close>,
  with no retry made so far and three allowed, \<open>handle_redirect_response\<close> hands on a copy
  of the request with \<open>retry_count\<close> set to 1: the redirect counter is incremented for a
  challenge URL.
\<close>

theorem captcha_redirect_counter_counterexample:
  "contains ''captcha'' (resp_url
      \<lparr>resp_url = ''https://hip.lianjia.com/captcha?location=zufang'', status = 302,
       location = Utf8 ''https://hip.lianjia.com/login'', resp_meta_level = Some ''city'',
       data_totalpage = None, title_hl = None, area_hrefs = []\<rparr>)
   \<and> handle_redirect_response (\<lambda>q s. Some q) 3
      \<lparr>req_url = ''https://hip.lianjia.com/captcha?location=zufang'',
       req_callback = Some Parse_level, meta_level = Some ''city'', meta_retry_count = None,
       meta_retry_attempts = None, dont_filter = False\<rparr>
      \<lparr>resp_url = ''https://hip.lianjia.com/captcha?location=zufang'', status = 302,
       location = Utf8 ''https://hip.lianjia.com/login'', resp_meta_level = Some ''city'',
       data_totalpage = None, title_hl = None, area_hrefs = []\<rparr>
    = ([(WARNING, Redirect_detected ''https://hip.lianjia.com/captcha?location=zufang''
                    ''https://hip.lianjia.com/login''),
        (INFO, Retrying_redirect ''https://hip.lianjia.com/captcha?location=zufang'' 1 3
                 ''https://hip.lianjia.com/login'')],
       Inr (Return_request
         \<lparr>req_url = ''https://hip.lianjia.com/captcha?location=zufang'',
          req_callback = Some Parse_level, meta_level = Some ''city'',
          meta_retry_count = Some 1, meta_retry_attempts = None, dont_filter = False\<rparr>))"
  by code_simp

text \<open>
  Claim C6, as the code has it. Let \<open>c\<close> be the \<open>retry_count\<close> of the request, 0 when
  absent. For status 301 or 302 and \<open>Location\<close> bytes that decode as text: when \<open>c\<close> has
  reached \<open>max_retry_times\<close> the response is returned as it is; otherwise a copy of the
  request that differs only in \<open>retry_count\<close>, now \<open>c + 1\<close>, is handed to the inherited
  \<open>_retry\<close>, and the request \<open>_retry\<close> gives is returned (the response, if it gives
  none). A response of any other status, other redirect codes included, is returned as it
  is, whatever its headers are.
\<close>

theorem redirect_retry_301_302:
  assumes "c = (case meta_retry_count request of None \<Rightarrow> 0 | Some k \<Rightarrow> k)"
  shows "(status response \<in> {301, 302} \<longrightarrow> location response = Utf8 redirect_url \<longrightarrow>
            max_retry_times \<le> c \<longrightarrow>
            snd (handle_redirect_response retry max_retry_times request response) =
              Inr (Return_response response))
       \<and> (status response \<in> {301, 302} \<longrightarrow> location response = Utf8 redirect_url \<longrightarrow>
            c < max_retry_times \<longrightarrow>
            snd (handle_redirect_response retry max_retry_times request response) =
              Inr (case retry (request\<lparr>meta_retry_count := Some (c + 1)\<rparr>) (status response) of
                     Some q \<Rightarrow> Return_request q
                   | None \<Rightarrow> Return_response response))
       \<and> (status response \<notin> {301, 302} \<longrightarrow>
            handle_redirect_response retry max_retry_times request response =
              ([], Inr (Return_response response)))"
  using assms by (auto simp: handle_redirect_response_def Let_def)

theorem redirect_retry_301_302_witness:
  "snd (handle_redirect_response (\<lambda>q s. Some q) 3
      \<lparr>req_url = ''https://tj.lianjia.com/zufang/'', req_callback = Some Parse_level,
       meta_level = Some ''city'', meta_retry_count = Some 2, meta_retry_attempts = None,
       dont_filter = False\<rparr>
      \<lparr>resp_url = ''https://tj.lianjia.com/zufang/'', status = 302,
       location = Utf8 ''https://tj.lianjia.com/'', resp_meta_level = Some ''city'',
       data_totalpage = None, title_hl = None, area_hrefs = []\<rparr>)
    = Inr (Return_request
      \<lparr>req_url = ''https://tj.lianjia.com/zufang/'', req_callback = Some Parse_level,
       meta_level = Some ''city'', meta_retry_count = Some 3, meta_retry_attempts = None,
       dont_filter = False\<rparr>)
   \<and> snd (handle_redirect_response (\<lambda>q s. Some q) 3
      \<lparr>req_url = ''https://tj.lianjia.com/zufang/'', req_callback = Some Parse_level,
       meta_level = Some ''city'', meta_retry_count = Some 3, meta_retry_attempts = None,
       dont_filter = False\<rparr>
      \<lparr>resp_url = ''https://tj.lianjia.com/zufang/'', status = 302,
       location = Utf8 ''https://tj.lianjia.com/'', resp_meta_level = Some ''city'',
       data_totalpage = None, title_hl = None, area_hrefs = []\<rparr>)
    = Inr (Return_response
      \<lparr>resp_url = ''https://tj.lianjia.com/zufang/'', status = 302,
       location = Utf8 ''https://tj.lianjia.com/'', resp_meta_level = Some ''city'',
       data_totalpage = None, title_hl = None, area_hrefs = []\<rparr>)
   \<and> handle_redirect_response (\<lambda>q s. Some q) 3
      \<lparr>req_url = ''https://tj.lianjia.com/zufang/'', req_callback = Some Parse_level,
       meta_level = Some ''city'', meta_retry_count = None, meta_retry_attempts = None,
       dont_filter = False\<rparr>
      \<lparr>resp_url = ''https://tj.lianjia.com/zufang/'', status = 200,
       location = Not_utf8, resp_meta_level = Some ''city'',
       data_totalpage = None, title_hl = None, area_hrefs = []\<rparr>
    = ([], Inr (Return_response
      \<lparr>resp_url = ''https://tj.lianjia.com/zufang/'', status = 200,
       location = Not_utf8, resp_meta_level = Some ''city'',
       data_totalpage = None, title_hl = None, area_hrefs = []\<rparr>))"
proof -
  let ?resp = "\<lparr>resp_url = ''https://tj.lianjia.com/zufang/'', status = 302,
       location = Utf8 ''https://tj.lianjia.com/'', resp_meta_level = Some ''city'',
       data_totalpage = None, title_hl = None, area_hrefs = []\<rparr>"
  from redirect_retry_301_302 [of 2
      "\<lparr>req_url = ''https://tj.lianjia.com/zufang/'', req_callback = Some Parse_level,
       meta_level = Some ''city'', meta_retry_count = Some 2, meta_retry_attempts = None,
       dont_filter = False\<rparr>" ?resp "''https://tj.lianjia.com/''" 3 "\<lambda>q s. Some q"]
    redirect_retry_301_302 [of 3
      "\<lparr>req_url = ''https://tj.lianjia.com/zufang/'', req_callback = Some Parse_level,
       meta_level = Some ''city'', meta_retry_count = Some 3, meta_retry_attempts = None,
       dont_filter = False\<rparr>" ?resp "''https://tj.lianjia.com/''" 3 "\<lambda>q s. Some q"]
    redirect_retry_301_302 [of 0
      "\<lparr>req_url = ''https://tj.lianjia.com/zufang/'', req_callback = Some Parse_level,
       meta_level = Some ''city'', meta_retry_count = None, meta_retry_attempts = None,
       dont_filter = False\<rparr>"
      "\<lparr>resp_url = ''https://tj.lianjia.com/zufang/'', status = 200,
       location = Not_utf8, resp_meta_level = Some ''city'',
       data_totalpage = None, title_hl = None, area_hrefs = []\<rparr>" "[]" 3 "\<lambda>q s. Some q"]
  show ?thesis by simp
qed

text \<open>
  Claim C6 as stated fails. Status 307 is a redirect in the 3xx range; with no retry made
  so far and three allowed, the handler returns the response and no new request.
\<close>

theorem redirect_307_counterexample:
  "300 \<le> status \<lparr>resp_url = ''https://tj.lianjia.com/zufang/'', status = 307,
       location = Utf8 ''https://tj.lianjia.com/'', resp_meta_level = Some ''city'',
       data_totalpage = None, title_hl = None, area_hrefs = []\<rparr>
   \<and> status \<lparr>resp_url = ''https://tj.lianjia.com/zufang/'', status = 307,
       location = Utf8 ''https://tj.lianjia.com/'', resp_meta_level = Some ''city'',
       data_totalpage = None, title_hl = None, area_hrefs = []\<rparr> < 400
   \<and> handle_redirect_response (\<lambda>q s. Some q) 3
      \<lparr>req_url = ''https://tj.lianjia.com/zufang/'', req_callback = Some Parse_level,
       meta_level = Some ''city'', meta_retry_count = None, meta_retry_attempts = None,
       dont_filter = False\<rparr>
      \<lparr>resp_url = ''https://tj.lianjia.com/zufang/'', status = 307,
       location = Utf8 ''https://tj.lianjia.com/'', resp_meta_level = Some ''city'',
       data_totalpage = None, title_hl = None, area_hrefs = []\<rparr>
    = ([], Inr (Return_response
      \<lparr>resp_url = ''https://tj.lianjia.com/zufang/'', status = 307,
       location = Utf8 ''https://tj.lianjia.com/'', resp_meta_level = Some ''city'',
       data_totalpage = None, title_hl = None, area_hrefs = []\<rparr>))
   \<and> snd (handle_redirect_response (\<lambda>q s. Some q) 3
      \<lparr>req_url = ''https://tj.lianjia.com/zufang/'', req_callback = Some Parse_level,
       meta_level = Some ''city'', meta_retry_count = None, meta_retry_attempts = None,
       dont_filter = False\<rparr>
      \<lparr>resp_url = ''https://tj.lianjia.com/zufang/'', status = 307,
       location = Utf8 ''https://tj.lianjia.com/'', resp_meta_level = Some ''city'',
       data_totalpage = None, title_hl = None, area_hrefs = []\<rparr>)
    \<noteq> Inr (Return_request
      \<lparr>req_url = ''https://tj.lianjia.com/zufang/'', req_callback = Some Parse_level,
       meta_level = Some ''city'', meta_retry_count = Some 1, meta_retry_attempts = None,
       dont_filter = False\<rparr>)"
  by (simp add: handle_redirect_response_def)

end
